theory Spec2Isabelle
  imports Main
begin

section \<open>Values shared by the pages and the mutations\<close>

text \<open>
  A JavaScript exception \<^verbatim>\<open>new Error(message)\<close>. A function of the source that can
  throw returns \<open>js_error + 'a\<close>, with \<open>Inl\<close> for the thrown error.
\<close>

datatype js_error = Error string

text \<open>
  What the \<^verbatim>\<open>useQuery\<close> hook hands to a component: \<^verbatim>\<open>undefined\<close> while the query is
  loading, \<^verbatim>\<open>null\<close> when the query answered with no document, or the document.
\<close>

datatype 'a query_result = Undefined | Null | Loaded 'a

text \<open>
  A document identifier of the hosted store. The source uses two of its operations:
  \<^verbatim>\<open>toString()\<close> and \<^verbatim>\<open>equals(other)\<close>, the latter false on \<^verbatim>\<open>null\<close>.
\<close>

datatype Id = Id string

fun toString :: "Id \<Rightarrow> string" where
  "toString (Id s) = s"

fun equals :: "Id \<Rightarrow> Id option \<Rightarrow> bool" where
  "equals i None = False"
| "equals i (Some j) = (i = j)"

text \<open>
  A document of the \<^verbatim>\<open>users\<close> table, as \<^verbatim>\<open>findUser\<close> and the \<^verbatim>\<open>getCurrentUser\<close> query
  return it: \<open>user_id\<close> is the field \<^verbatim>\<open>_id\<close>, \<open>user_name\<close> the field \<^verbatim>\<open>name\<close>.
\<close>

record UserDoc =
  user_id :: Id
  user_name :: string

text \<open>
  Modelled from the spec: the types \<^verbatim>\<open>User\<close>, \<^verbatim>\<open>Visibility\<close>, \<^verbatim>\<open>Status\<close> and
  \<^verbatim>\<open>NewTaskInfo\<close> are declared in \<^verbatim>\<open>types\<close>, a module outside the sources covered here. The
  payload of a task creation is a title, a description, a status, a visibility and an
  optional owner; the owner is a user as the client sees it, of which \<^verbatim>\<open>createTask\<close> reads
  the field \<^verbatim>\<open>id\<close> (a string, here \<open>owner_id\<close>). A status is a number of a numeric
  enumeration (the client compares it with \<^verbatim>\<open>+value\<close>).
\<close>

record User =
  owner_id :: string
  owner_name :: string

datatype Visibility = PUBLIC | PRIVATE

type_synonym Status = int

record TaskFields =
  title :: string
  description :: string
  status :: Status
  visibility :: Visibility
  owner :: "User option"

text \<open>
  The payload as \<^verbatim>\<open>createTask\<close> receives it. The mutation validates nothing, and an
  object of a TypeScript type can carry further keys: besides the declared fields the
  payload can hold keys with the names of the fields \<^verbatim>\<open>createTask\<close> computes
  (\<^verbatim>\<open>pages/task/new.tsx\<close> builds its task information with an \<^verbatim>\<open>ownerId\<close> key). A field
  \<open>given_k\<close> is \<open>None\<close> when the payload has no key \<open>k\<close> and \<open>Some v\<close> when it has the
  key with the value \<open>v\<close>.
\<close>

record NewTaskInfo = TaskFields +
  given_ownerId :: "Id option option"
  given_ownerName :: "string option option"
  given_commentCount :: "int option"
  given_fileCount :: "int option"
  given_number :: "int option"

text \<open>
  A document of the \<^verbatim>\<open>tasks\<close> table: the payload's fields and the five fields
  \<^verbatim>\<open>createTask\<close> adds. Numbers are JavaScript numbers, that is IEEE doubles; the ones
  modelled are those holding an integer, as \<open>int\<close>.
\<close>

record TaskDoc = TaskFields +
  ownerId :: "Id option"
  ownerName :: "string option"
  commentCount :: int
  fileCount :: int
  number :: int

section \<open>The pages\<close>

text \<open>
  What a page component returns: a \<^verbatim>\<open>main\<close> element holding one heading, a \<^verbatim>\<open>main\<close>
  element holding the login header and a task form (with the \<^verbatim>\<open>user\<close> prop, the mutation
  name and, on the edit page, the task), or nothing (\<^verbatim>\<open>undefined\<close>).
\<close>

datatype view =
    Heading string
  | TaskForm "UserDoc query_result" string "TaskDoc option"
  | Nothing

text \<open>Truthiness of a query result: a document is an object, hence truthy.\<close>

fun truthy :: "'a query_result \<Rightarrow> bool" where
  "truthy (Loaded x) = True"
| "truthy Null = False"
| "truthy Undefined = False"

text \<open>
  \<^verbatim>\<open>CreateTaskPage\<close> of \<^verbatim>\<open>pages/task/new.tsx\<close>: it throws when \<^verbatim>\<open>user === null\<close> and
  returns \<^verbatim>\<open>user && (...)\<close> otherwise. The initial task information it passes to the
  form is a constant and is left out of the view.
\<close>

definition CreateTaskPage :: "UserDoc query_result \<Rightarrow> js_error + view" where
  "CreateTaskPage user =
     (if user = Null then Inl (Error ''User must be logged in to create a task'')
      else Inr (if truthy user then TaskForm user ''createTask'' None else Nothing))"

text \<open>
  \<^verbatim>\<open>EditTaskPage\<close> of \<^verbatim>\<open>pages/task/[taskNumber]/edit.tsx\<close>. \<open>isOwner\<close> is the
  truthiness of \<^verbatim>\<open>user && task && user._id.equals(task.ownerId)\<close>, computed where
  \<^verbatim>\<open>task\<close> is truthy. The component has no \<^verbatim>\<open>throw\<close>; when \<^verbatim>\<open>task\<close> is \<^verbatim>\<open>undefined\<close> it
  returns nothing.
\<close>

definition isOwner :: "UserDoc query_result \<Rightarrow> TaskDoc \<Rightarrow> bool" where
  "isOwner user task =
     (case user of Loaded u \<Rightarrow> equals (user_id u) (ownerId task) | _ \<Rightarrow> False)"

definition EditTaskPage :: "UserDoc query_result \<Rightarrow> TaskDoc query_result \<Rightarrow> js_error + view" where
  "EditTaskPage user task =
     (if task = Null then Inr (Heading ''Task not found'')
      else (case task of
              Loaded t \<Rightarrow>
                (if \<not> isOwner user t
                 then Inr (Heading ''You do not have permission to edit this task'')
                 else Inr (TaskForm user ''updateTask'' (Some t)))
            | _ \<Rightarrow> Inr Nothing))"

section \<open>The sort state of the task list\<close>

text \<open>
  Modelled from the spec: \<^verbatim>\<open>SortOrder\<close> is declared in \<^verbatim>\<open>types\<close>, a module outside the sources
  covered here; the direction is ascending or descending. A sort key is the \<^verbatim>\<open>id\<close> of the
  clicked column header, a string.
\<close>

datatype SortOrder = ASC | DESC

record SortState =
  sortKey :: string
  sortOrder :: SortOrder

text \<open>
  \<^verbatim>\<open>onChangeSort\<close>: the second argument is \<^verbatim>\<open>event.target.id\<close>.
\<close>

definition onChangeSort :: "SortState \<Rightarrow> string \<Rightarrow> SortState" where
  "onChangeSort st key =
     (if sortKey st = key
      then st\<lparr>sortOrder := (if sortOrder st = ASC then DESC else ASC)\<rparr>
      else st\<lparr>sortKey := key, sortOrder := ASC\<rparr>)"

section \<open>The status filter of the task list\<close>

text \<open>
  The target of a checkbox change event: its \<^verbatim>\<open>value\<close> (a string) and \<^verbatim>\<open>checked\<close>.
\<close>

record ChangeTarget =
  target_value :: string
  target_checked :: bool

text \<open>
  \<^verbatim>\<open>onChangeStatus\<close>: the next status filter. \<open>STATUS_VALUES\<close> is the constant of that
  name, declared in \<^verbatim>\<open>types\<close> and taken as a parameter. \<open>toNumber\<close> is JavaScript's
  unary plus on a string, \<^verbatim>\<open>+value\<close>, taken as a parameter too: \<open>None\<close> when the result
  is no integer (\<^verbatim>\<open>NaN\<close> equals nothing).
\<close>

definition onChangeStatus ::
    "Status list \<Rightarrow> (string \<Rightarrow> int option) \<Rightarrow> Status list \<Rightarrow> ChangeTarget \<Rightarrow> Status list" where
  "onChangeStatus STATUS_VALUES toNumber statusFilter target =
     (if target_checked target
      then filter (\<lambda>s. s \<in> set statusFilter \<or> Some s = toNumber (target_value target))
             STATUS_VALUES
      else filter (\<lambda>s. Some s \<noteq> toNumber (target_value target)) statusFilter)"

text \<open>
  The filter after a sequence of change events, each handled after the re-render that
  follows the one before.
\<close>

fun statusEvents ::
    "Status list \<Rightarrow> (string \<Rightarrow> int option) \<Rightarrow> Status list \<Rightarrow> ChangeTarget list \<Rightarrow> Status list" where
  "statusEvents STATUS_VALUES toNumber statusFilter [] = statusFilter"
| "statusEvents STATUS_VALUES toNumber statusFilter (e # es) =
     statusEvents STATUS_VALUES toNumber (onChangeStatus STATUS_VALUES toNumber statusFilter e) es"

text \<open>A conversion for the examples: the strings of the digits 0 to 3.\<close>

definition digitValue :: "string \<Rightarrow> int option" where
  "digitValue s =
     (if s = ''0'' then Some 0 else if s = ''1'' then Some 1
      else if s = ''2'' then Some 2 else if s = ''3'' then Some 3 else None)"

section \<open>The comment form\<close>

text \<open>The state of the \<^verbatim>\<open>Comments\<close> component: the text of the input.\<close>

record CommentsState =
  newComment :: string

text \<open>
  \<^verbatim>\<open>handleAddComment\<close>: \<^verbatim>\<open>event.preventDefault()\<close>, which leaves the component state
  alone, \<^verbatim>\<open>setNewComment('')\<close>, then \<^verbatim>\<open>await saveComment(taskId,
  newComment)\<close> with the text the handler closed over. The mutation runs in the hosted
  store; its outcome is the parameter \<open>saveComment\<close>, \<open>Inl\<close> for a rejection. The result
  is the outcome of the handler's promise and the component state after it.
\<close>

definition handleAddComment ::
    "('t \<Rightarrow> string \<Rightarrow> js_error + 'r) \<Rightarrow> 't \<Rightarrow> CommentsState \<Rightarrow> (js_error + unit) \<times> CommentsState" where
  "handleAddComment saveComment taskId st =
     (let st' = st\<lparr>newComment := ''''\<rparr> in
      case saveComment taskId (newComment st) of
        Inl e \<Rightarrow> (Inl e, st')
      | Inr _ \<Rightarrow> (Inr (), st'))"

text \<open>A \<^verbatim>\<open>saveComment\<close> that rejects every call.\<close>

definition rejectingSave :: "Id \<Rightarrow> string \<Rightarrow> js_error + unit" where
  "rejectingSave taskId body = Inl (Error ''Error saving comment'')"

section \<open>The \<^verbatim>\<open>createTask\<close> mutation\<close>

text \<open>
  The store, as far as \<^verbatim>\<open>createTask\<close> touches it: the \<^verbatim>\<open>tasks\<close> table in creation
  order, oldest first, and the identifier the store gives to the next inserted
  document (\<open>newId\<close>, by the count of documents in the table).
\<close>

record Database =
  tasks :: "TaskDoc list"
  newId :: "nat \<Rightarrow> Id"

text \<open>\<^verbatim>\<open>db.query('tasks').order('desc').first()\<close>: the most recently created task.\<close>

definition order_desc :: "Database \<Rightarrow> TaskDoc list" where
  "order_desc db = rev (tasks db)"

definition first :: "'a list \<Rightarrow> 'a option" where
  "first xs = (case xs of [] \<Rightarrow> None | x # _ \<Rightarrow> Some x)"

text \<open>\<^verbatim>\<open>db.insert('tasks', doc)\<close>: the new identifier and the store with the document.\<close>

definition db_insert :: "Database \<Rightarrow> TaskDoc \<Rightarrow> Id \<times> Database" where
  "db_insert db doc = (newId db (length (tasks db)), db\<lparr>tasks := tasks db @ [doc]\<rparr>)"

text \<open>
  The owner check: \<^verbatim>\<open>taskInfo.owner?.id && taskInfo.owner.id !== user._id.toString()\<close>.
  A string is truthy when it is not empty.
\<close>

definition ownerMismatch :: "NewTaskInfo \<Rightarrow> UserDoc \<Rightarrow> bool" where
  "ownerMismatch taskInfo user =
     (case owner taskInfo of
        None \<Rightarrow> False
      | Some ow \<Rightarrow> owner_id ow \<noteq> '''' \<and> owner_id ow \<noteq> toString (user_id user))"

text \<open>
  \<^verbatim>\<open>x + 1\<close> on a double \<open>x\<close> that holds an integer. The sum is exact from \<open>- 2 ^ 53\<close> up to
  \<open>2 ^ 53 - 1\<close>. Beyond, the doubles are the even integers up to magnitude \<open>2 ^ 54\<close> and
  lie further apart after that; the odd sum lies halfway between \<open>x\<close> and \<open>x + 2\<close> and is
  rounded to the one with the even significand, or is nearest to \<open>x\<close> itself.
\<close>

definition add_one :: "int \<Rightarrow> int" where
  "add_one x =
     (if - (2 ^ 53) \<le> x \<and> x < 2 ^ 53 then x + 1
      else if \<bar>x\<bar> < 2 ^ 54 \<and> (x div 2) mod 2 \<noteq> 0 then x + 2
      else x)"

text \<open>
  A key of the object literal \<^verbatim>\<open>{ k: computed, ..., ...taskInfo }\<close>: the spread comes
  last, so a key \<open>k\<close> of the payload replaces the computed value.
\<close>

definition spread :: "'a \<Rightarrow> 'a option \<Rightarrow> 'a" where
  "spread computed given = (case given of None \<Rightarrow> computed | Some v \<Rightarrow> v)"

text \<open>
  The mutation. \<open>found\<close> is the result of \<^verbatim>\<open>findUser(db, auth)\<close> (\<^verbatim>\<open>findUser\<close> is defined
  in \<^verbatim>\<open>getCurrentUser\<close>, a module outside the sources covered here): the user document of the
  authenticated principal, or \<open>None\<close>. A mutation that throws writes nothing, so the
  store comes back as it was.
\<close>

definition createTask ::
    "UserDoc option \<Rightarrow> Database \<Rightarrow> NewTaskInfo \<Rightarrow> (js_error + string) \<times> Database" where
  "createTask found db taskInfo =
     (case found of
        None \<Rightarrow> (Inl (Error ''Error creating task: User identity not found''), db)
      | Some user \<Rightarrow>
          if ownerMismatch taskInfo user
          then (Inl (Error ''Error creating task: Current user and task owner do not match''), db)
          else
            let lastCreatedTask = first (order_desc db);
                n = (case lastCreatedTask of Some t \<Rightarrow> add_one (number t) | None \<Rightarrow> 1);
                (taskId, db') = db_insert db
                  \<lparr>title = title taskInfo,
                   description = description taskInfo,
                   status = status taskInfo,
                   visibility = visibility taskInfo,
                   owner = owner taskInfo,
                   ownerId =
                     spread (if owner taskInfo \<noteq> None then Some (user_id user) else None)
                       (given_ownerId taskInfo),
                   ownerName =
                     spread (if owner taskInfo \<noteq> None then Some (user_name user) else None)
                       (given_ownerName taskInfo),
                   commentCount = spread 0 (given_commentCount taskInfo),
                   fileCount = spread 0 (given_fileCount taskInfo),
                   number = spread n (given_number taskInfo)\<rparr>
            in (Inr (toString taskId), db'))"

text \<open>
  A sequence of calls, the store applying one mutation after the other: each call is
  the user resolved for it and its payload.
\<close>

fun createTasks :: "Database \<Rightarrow> (UserDoc option \<times> NewTaskInfo) list \<Rightarrow> Database" where
  "createTasks db [] = db"
| "createTasks db ((found, taskInfo) # calls) =
     createTasks (snd (createTask found db taskInfo)) calls"

text \<open>Concrete values for the examples below.\<close>

definition idOf :: "nat \<Rightarrow> Id" where
  "idOf k = Id (replicate (Suc k) CHR ''t'')"

definition emptyDb :: Database where
  "emptyDb = \<lparr>tasks = [], newId = idOf\<rparr>"

definition alice :: UserDoc where
  "alice = \<lparr>user_id = Id ''u1'', user_name = ''Alice''\<rparr>"

text \<open>A payload of the declared fields only, with the given owner.\<close>

definition payload :: "User option \<Rightarrow> NewTaskInfo" where
  "payload ow =
     \<lparr>title = ''T'', description = ''D'', status = 0, visibility = PUBLIC, owner = ow,
      given_ownerId = None, given_ownerName = None, given_commentCount = None,
      given_fileCount = None, given_number = None\<rparr>"

text \<open>The same payload with a further key \<^verbatim>\<open>number\<close>.\<close>

definition payloadNumber :: "int \<Rightarrow> NewTaskInfo" where
  "payloadNumber k = (payload None)\<lparr>given_number := Some k\<rparr>"

text \<open>A payload that states the owner \<^verbatim>\<open>u1\<close> and carries the key \<^verbatim>\<open>ownerId\<close> with the
  value \<^verbatim>\<open>null\<close>.\<close>

definition payloadOwnerIdNull :: NewTaskInfo where
  "payloadOwnerIdNull =
     (payload (Some \<lparr>owner_id = ''u1'', owner_name = ''Alice''\<rparr>))\<lparr>given_ownerId := Some None\<rparr>"

definition unownedTask :: TaskDoc where
  "unownedTask =
     \<lparr>title = ''T'', description = ''D'', status = 0, visibility = PUBLIC, owner = None,
      ownerId = None, ownerName = None, commentCount = 0, fileCount = 0, number = 1\<rparr>"

text \<open>
  The numbering invariant of a store: the task at position \<open>i\<close> of the creation order
  (counting from 0) has the number \<open>i + 1\<close>.
\<close>

definition numbered :: "Database \<Rightarrow> bool" where
  "numbered db = (map number (tasks db) = map (\<lambda>i. int i + 1) [0..<length (tasks db)])"

text \<open>A call passes the checks of \<open>createTask\<close> when a user was found for it and the
  owner check does not reject its payload.\<close>

definition accepted :: "UserDoc option \<times> NewTaskInfo \<Rightarrow> bool" where
  "accepted call =
     (case fst call of None \<Rightarrow> False | Some user \<Rightarrow> \<not> ownerMismatch (snd call) user)"

section \<open>Properties of \<^verbatim>\<open>createTask\<close>\<close>

lemmas example_defs = createTask_def db_insert_def first_def order_desc_def ownerMismatch_def
  emptyDb_def alice_def payload_def payloadNumber_def payloadOwnerIdNull_def idOf_def
  spread_def add_one_def Let_def

subsection \<open>One call\<close>

text \<open>A call that returns has found a user, passed the owner check and appended one
  document; each computed field gives way to a payload key of its name.\<close>

lemma createTask_ok:
  "createTask found db taskInfo = (Inr r, db') \<Longrightarrow>
     \<exists>user. found = Some user \<and> \<not> ownerMismatch taskInfo user \<and>
       r = toString (newId db (length (tasks db))) \<and>
       db' = db\<lparr>tasks := tasks db @
         [\<lparr>title = title taskInfo,
           description = description taskInfo,
           status = status taskInfo,
           visibility = visibility taskInfo,
           owner = owner taskInfo,
           ownerId =
             spread (if owner taskInfo \<noteq> None then Some (user_id user) else None)
               (given_ownerId taskInfo),
           ownerName =
             spread (if owner taskInfo \<noteq> None then Some (user_name user) else None)
               (given_ownerName taskInfo),
           commentCount = spread 0 (given_commentCount taskInfo),
           fileCount = spread 0 (given_fileCount taskInfo),
           number =
             spread (if tasks db = [] then 1 else add_one (number (last (tasks db))))
               (given_number taskInfo)\<rparr>]\<rparr>"
  by (cases "tasks db" rule: rev_cases)
     (auto simp: createTask_def db_insert_def first_def order_desc_def Let_def
           split: option.splits if_splits)

lemma createTask_error:
  "createTask found db taskInfo = (Inl e, db') \<Longrightarrow> db' = db"
  by (auto simp: createTask_def db_insert_def Let_def split: option.splits if_splits prod.splits)

lemma createTask_tasks:
  "tasks (snd (createTask found db taskInfo)) = tasks db \<or>
   (\<exists>t. tasks (snd (createTask found db taskInfo)) = tasks db @ [t] \<and>
        number t =
          spread (if tasks db = [] then 1 else add_one (number (last (tasks db))))
            (given_number taskInfo))"
proof (cases "createTask found db taskInfo")
  case (Pair res db')
  show ?thesis
  proof (cases res)
    case (Inl e)
    with Pair createTask_error [of found db taskInfo e db'] show ?thesis by simp
  next
    case (Inr r)
    with Pair createTask_ok [of found db taskInfo r db'] show ?thesis by auto
  qed
qed

lemma add_one_exact: "- (2 ^ 53) \<le> x \<Longrightarrow> x < 2 ^ 53 \<Longrightarrow> add_one x = x + 1"
  by (simp add: add_one_def)

lemma sorted_last_Max:
  fixes xs :: "int list"
  shows "sorted xs \<Longrightarrow> xs \<noteq> [] \<Longrightarrow> last xs = Max (set xs)"
proof (induction xs)
  case Nil
  then show ?case by simp
next
  case (Cons x xs)
  show ?case
  proof (cases "xs = []")
    case True
    then show ?thesis by simp
  next
    case False
    with Cons have "last xs = Max (set xs)" by simp
    moreover from Cons.prems False have "x \<le> Max (set xs)"
      by (metis List.finite_set Max_ge_iff last_in_set order_refl set_empty sorted_simps(2) calculation)
    ultimately show ?thesis using False by (simp add: max_def)
  qed
qed

text \<open>
  C1. The claim: a call to \<open>createTask\<close> that passes the authentication and owner
  checks gives the new task the maximum of the existing numbers plus 1, and 1 when no
  task exists. The code at a payload that carries the key \<^verbatim>\<open>number\<close> with the value 99,
  on a store with no tasks: the call passes both checks and the task is stored with the
  number 99, the payload's, not with 1.
\<close>

theorem createTask_given_number_stored:
  "tasks emptyDb = [] \<and>
   fst (createTask (Some alice) emptyDb (payloadNumber 99)) = Inr ''t'' \<and>
   map number (tasks (snd (createTask (Some alice) emptyDb (payloadNumber 99)))) = [99]"
  by (simp add: example_defs)

text \<open>
  Where the payload carries no key \<^verbatim>\<open>number\<close>, the new task is numbered from the most
  recently created one. When moreover the existing numbers are monotone in creation
  order and the last of them is an integer that a double increments exactly, the new
  number is the maximum of the existing numbers plus 1, and 1 on a store with no tasks.
\<close>

lemma createTask_number_computed:
  assumes "createTask found db taskInfo = (Inr r, db')"
    and "given_number taskInfo = None"
  shows "tasks db' = tasks db @ [last (tasks db')] \<and>
         number (last (tasks db')) =
           (if tasks db = [] then 1 else add_one (number (last (tasks db))))"
  using createTask_ok [OF assms(1)] assms(2) by (auto simp: spread_def)

lemma createTask_number_max_plus_one:
  assumes "createTask found db taskInfo = (Inr r, db')"
    and "given_number taskInfo = None"
    and "sorted (map number (tasks db))"
    and "tasks db \<noteq> [] \<longrightarrow>
           - (2 ^ 53) \<le> number (last (tasks db)) \<and> number (last (tasks db)) < 2 ^ 53"
  shows "tasks db' = tasks db @ [last (tasks db')] \<and>
         number (last (tasks db')) =
           (if tasks db = [] then 1 else Max (set (map number (tasks db))) + 1)"
proof -
  from createTask_number_computed [OF assms(1,2)]
  have app: "tasks db' = tasks db @ [last (tasks db')]"
    and num: "number (last (tasks db')) =
      (if tasks db = [] then 1 else add_one (number (last (tasks db))))"
    by auto
  show ?thesis
  proof (cases "tasks db = []")
    case True
    with app num show ?thesis by simp
  next
    case False
    then have "last (map number (tasks db)) = Max (set (map number (tasks db)))"
      using assms(3) by (intro sorted_last_Max) simp_all
    with False have "number (last (tasks db)) = Max (set (map number (tasks db)))"
      by (simp add: last_map)
    moreover from False assms(4)
    have "add_one (number (last (tasks db))) = number (last (tasks db)) + 1"
      by (simp add: add_one_exact)
    ultimately show ?thesis using app num False by simp
  qed
qed

text \<open>At \<open>2 ^ 53\<close> the increment of a double stands still: a store whose last task has
  that number gives the next task the same number.\<close>

lemma createTask_number_at_2_53:
  "map number (tasks (createTasks emptyDb
      [(Some alice, payloadNumber 9007199254740992), (Some alice, payload None)])) =
     [9007199254740992, 9007199254740992]"
  by (simp add: example_defs)

subsection \<open>Sequences of calls\<close>

text \<open>
  C2. The claim: for every sequence of task creations applied one after the other,
  every created task's number is unique and is one more than the count of tasks created
  before it. The code at two calls, on a store with no tasks, whose payloads both carry
  the key \<^verbatim>\<open>number\<close> with the value 5: both tasks are stored with the number 5.
\<close>

theorem createTasks_given_number_repeated:
  "tasks emptyDb = [] \<and>
   map number (tasks (createTasks emptyDb
      [(Some alice, payloadNumber 5), (Some alice, payloadNumber 5)])) = [5, 5]"
  by (simp add: example_defs)

text \<open>
  Where no payload carries the key \<^verbatim>\<open>number\<close>, calls keep the numbering invariant as
  long as the count of tasks stays below \<open>2 ^ 53\<close>: from a store with no tasks the
  numbers are 1, 2, 3 and so on in creation order, without gap or repetition.
\<close>

lemma numbered_createTask:
  assumes "numbered db"
    and "given_number taskInfo = None"
    and "int (length (tasks db)) < 2 ^ 53"
  shows "numbered (snd (createTask found db taskInfo))"
proof -
  from createTask_tasks [of found db taskInfo]
  show ?thesis
  proof
    assume "tasks (snd (createTask found db taskInfo)) = tasks db"
    with assms(1) show ?thesis by (simp add: numbered_def)
  next
    assume "\<exists>t. tasks (snd (createTask found db taskInfo)) = tasks db @ [t] \<and>
        number t =
          spread (if tasks db = [] then 1 else add_one (number (last (tasks db))))
            (given_number taskInfo)"
    with assms(2) obtain t
      where t: "tasks (snd (createTask found db taskInfo)) = tasks db @ [t]"
      and n: "number t = (if tasks db = [] then 1 else add_one (number (last (tasks db))))"
      by (auto simp: spread_def)
    have "number t = int (length (tasks db)) + 1"
    proof (cases "tasks db = []")
      case True
      with n show ?thesis by simp
    next
      case False
      then have "number (last (tasks db)) = last (map number (tasks db))"
        by (simp add: last_map)
      also have "\<dots> = last (map (\<lambda>i. int i + 1) [0..<length (tasks db)])"
        using assms(1) by (simp add: numbered_def)
      also have "\<dots> = int (length (tasks db) - 1) + 1"
        using False by (simp add: last_map)
      finally have l: "number (last (tasks db)) = int (length (tasks db))"
        using False by (cases "tasks db") simp_all
      with assms(3) have "add_one (number (last (tasks db))) = int (length (tasks db)) + 1"
        by (simp add: add_one_exact)
      with n False show ?thesis by simp
    qed
    with t assms(1) show ?thesis by (simp add: numbered_def)
  qed
qed

lemma createTask_length:
  "length (tasks (snd (createTask found db taskInfo))) =
     length (tasks db) + (if accepted (found, taskInfo) then 1 else 0)"
  by (auto simp: createTask_def db_insert_def accepted_def Let_def split: option.splits)

lemma createTasks_length:
  "length (tasks (createTasks db calls)) = length (tasks db) + length (filter accepted calls)"
  by (induction db calls rule: createTasks.induct) (simp_all add: createTask_length)

lemma numbered_createTasks:
  assumes "numbered db"
    and "\<forall>call \<in> set calls. given_number (snd call) = None"
    and "int (length (tasks db) + length calls) < 2 ^ 53"
  shows "numbered (createTasks db calls)"
  using assms
proof (induction db calls rule: createTasks.induct)
  case (1 db)
  then show ?case by simp
next
  case (2 db found taskInfo calls)
  let ?db = "snd (createTask found db taskInfo)"
  from "2.prems" have "numbered ?db"
    by (intro numbered_createTask) simp_all
  moreover from "2.prems" have "\<forall>call \<in> set calls. given_number (snd call) = None"
    by simp
  moreover have "length (tasks ?db) \<le> length (tasks db) + 1"
    by (simp add: createTask_length)
  with "2.prems"(3) have "int (length (tasks ?db) + length calls) < 2 ^ 53"
    by simp
  ultimately show ?case using "2.IH" by simp
qed

lemma createTasks_numbers:
  assumes "\<forall>call \<in> set calls. given_number (snd call) = None"
    and "int (length calls) < 2 ^ 53"
  shows "map number (tasks (createTasks \<lparr>tasks = [], newId = ids\<rparr> calls)) =
     map (\<lambda>i. int i + 1) [0..<length (tasks (createTasks \<lparr>tasks = [], newId = ids\<rparr> calls))] \<and>
   distinct (map number (tasks (createTasks \<lparr>tasks = [], newId = ids\<rparr> calls)))"
proof -
  have "numbered \<lparr>tasks = [], newId = ids\<rparr>" by (simp add: numbered_def)
  with assms have eq: "numbered (createTasks \<lparr>tasks = [], newId = ids\<rparr> calls)"
    by (intro numbered_createTasks) simp_all
  have "distinct (map (\<lambda>i. int i + 1) [0..<n])" for n
    by (simp add: distinct_map inj_on_def)
  with eq show ?thesis unfolding numbered_def by metis
qed

lemma createTasks_numbers_example:
  "map number (tasks (createTasks \<lparr>tasks = [], newId = idOf\<rparr>
      [(Some alice, payload None), (None, payload None),
       (Some alice, payload (Some \<lparr>owner_id = ''u2'', owner_name = ''Bob''\<rparr>)),
       (Some alice, payload (Some \<lparr>owner_id = ''u1'', owner_name = ''Alice''\<rparr>)),
       (Some alice, payload None)])) = [1, 2, 3]"
  by (simp add: example_defs)

lemma numbered_sorted:
  assumes "numbered db"
  shows "sorted (map number (tasks db))"
proof -
  have "sorted (map (\<lambda>i. int i + 1) [0..<n])" for n
    by (simp add: sorted_map sorted_wrt_iff_nth_less)
  with assms show ?thesis by (simp add: numbered_def)
qed

subsection \<open>The owner check\<close>

text \<open>
  C3. The claim: a call to \<open>createTask\<close> whose payload states an owner with an id
  different from the id of the resolved principal fails with an error and stores
  nothing. The code at a payload whose owner has the empty string as its id, for the
  principal with the id \<^verbatim>\<open>u1\<close>: the ids differ, yet \<^verbatim>\<open>taskInfo.owner?.id && ...\<close> takes
  the empty string for falsy, the call returns and a task is stored, with the payload's
  owner beside the owner id and owner name of the principal.
\<close>

theorem createTask_empty_owner_id_accepted:
  "owner_id \<lparr>owner_id = '''', owner_name = ''Bob''\<rparr> \<noteq> toString (user_id alice) \<and>
   tasks emptyDb = [] \<and>
   fst (createTask (Some alice) emptyDb (payload (Some \<lparr>owner_id = '''', owner_name = ''Bob''\<rparr>)))
     = Inr ''t'' \<and>
   map owner (tasks (snd (createTask (Some alice) emptyDb
      (payload (Some \<lparr>owner_id = '''', owner_name = ''Bob''\<rparr>))))) =
     [Some \<lparr>owner_id = '''', owner_name = ''Bob''\<rparr>] \<and>
   map ownerId (tasks (snd (createTask (Some alice) emptyDb
      (payload (Some \<lparr>owner_id = '''', owner_name = ''Bob''\<rparr>))))) = [Some (Id ''u1'')] \<and>
   map ownerName (tasks (snd (createTask (Some alice) emptyDb
      (payload (Some \<lparr>owner_id = '''', owner_name = ''Bob''\<rparr>))))) = [Some ''Alice'']"
  by (simp add: example_defs)

text \<open>Every owner with a non-empty id different from the principal's is rejected, and
  the store is unchanged; the empty id is the only one the check misses.\<close>

lemma createTask_owner_mismatch:
  assumes "owner taskInfo = Some ow"
    and "owner_id ow \<noteq> ''''"
    and "owner_id ow \<noteq> toString (user_id user)"
  shows "createTask (Some user) db taskInfo =
     (Inl (Error ''Error creating task: Current user and task owner do not match''), db)"
  using assms by (simp add: createTask_def ownerMismatch_def)

lemma createTask_owner_mismatch_example:
  "fst (createTask (Some alice) emptyDb (payload (Some \<lparr>owner_id = ''u2'', owner_name = ''Bob''\<rparr>))) =
     Inl (Error ''Error creating task: Current user and task owner do not match'') \<and>
   tasks (snd (createTask (Some alice) emptyDb
     (payload (Some \<lparr>owner_id = ''u2'', owner_name = ''Bob''\<rparr>)))) = []"
  by (simp add: example_defs)

lemma createTask_mismatch_accepted_iff:
  assumes "owner taskInfo = Some ow"
    and "owner_id ow \<noteq> toString (user_id user)"
  shows "(\<exists>r db'. createTask (Some user) db taskInfo = (Inr r, db')) \<longleftrightarrow> owner_id ow = ''''"
  using assms
  by (auto simp: createTask_def ownerMismatch_def db_insert_def Let_def split: prod.splits)

subsection \<open>The denormalised owner\<close>

text \<open>
  C8. The claim: every task document \<open>createTask\<close> stores has its owner id and its
  owner name both null or both set. The code at a payload that states the owner \<^verbatim>\<open>u1\<close>
  and carries the key \<^verbatim>\<open>ownerId\<close> with the value \<^verbatim>\<open>null\<close>, for the principal \<^verbatim>\<open>u1\<close>:
  the call passes both checks and the task is stored with the owner id null, the
  payload's, and the owner name of the principal.
\<close>

theorem createTask_given_ownerId_stored:
  "fst (createTask (Some alice) emptyDb payloadOwnerIdNull) = Inr ''t'' \<and>
   map ownerId (tasks (snd (createTask (Some alice) emptyDb payloadOwnerIdNull))) = [None] \<and>
   map ownerName (tasks (snd (createTask (Some alice) emptyDb payloadOwnerIdNull))) =
     [Some ''Alice'']"
  by (simp add: example_defs)

text \<open>Where the payload carries neither the key \<^verbatim>\<open>ownerId\<close> nor the key \<^verbatim>\<open>ownerName\<close>,
  the stored task has both fields null, when the payload states no owner, or both set,
  to the id and the name of the resolved user.\<close>

lemma createTask_owner_fields:
  assumes "createTask found db taskInfo = (Inr r, db')"
    and "given_ownerId taskInfo = None"
    and "given_ownerName taskInfo = None"
  shows "tasks db' = tasks db @ [last (tasks db')] \<and>
    ((owner taskInfo = None \<and> ownerId (last (tasks db')) = None \<and>
        ownerName (last (tasks db')) = None) \<or>
     (\<exists>user. found = Some user \<and> owner taskInfo \<noteq> None \<and>
        ownerId (last (tasks db')) = Some (user_id user) \<and>
        ownerName (last (tasks db')) = Some (user_name user)))"
proof -
  from createTask_ok [OF assms(1)] assms(2,3) obtain user where u: "found = Some user"
    and app: "tasks db' = tasks db @ [last (tasks db')]"
    and oid: "ownerId (last (tasks db')) =
      (if owner taskInfo \<noteq> None then Some (user_id user) else None)"
    and oname: "ownerName (last (tasks db')) =
      (if owner taskInfo \<noteq> None then Some (user_name user) else None)"
    by (auto simp: spread_def)
  show ?thesis
  proof (cases "owner taskInfo")
    case None
    with app oid oname show ?thesis by simp
  next
    case (Some ow)
    with app oid oname u show ?thesis by simp
  qed
qed

lemma createTask_owner_fields_example:
  "fst (createTask (Some alice) emptyDb (payload (Some \<lparr>owner_id = ''u1'', owner_name = ''Al''\<rparr>)))
     = Inr ''t'' \<and>
   map ownerId (tasks (snd (createTask (Some alice) emptyDb
      (payload (Some \<lparr>owner_id = ''u1'', owner_name = ''Al''\<rparr>))))) = [Some (Id ''u1'')] \<and>
   map ownerName (tasks (snd (createTask (Some alice) emptyDb
      (payload (Some \<lparr>owner_id = ''u1'', owner_name = ''Al''\<rparr>))))) = [Some ''Alice'']"
  by (simp add: example_defs)

section \<open>Properties of the status filter\<close>

text \<open>Every filter the handler produces from status values holds status values only.\<close>

lemma onChangeStatus_subset:
  "set statusFilter \<subseteq> set STATUS_VALUES \<Longrightarrow>
     set (onChangeStatus STATUS_VALUES toNumber statusFilter target) \<subseteq> set STATUS_VALUES"
  by (auto simp: onChangeStatus_def)

lemma statusEvents_subset:
  "set statusFilter \<subseteq> set STATUS_VALUES \<Longrightarrow>
     set (statusEvents STATUS_VALUES toNumber statusFilter events) \<subseteq> set STATUS_VALUES"
  by (induction STATUS_VALUES toNumber statusFilter events rule: statusEvents.induct)
     (simp_all add: onChangeStatus_subset)

lemma toggle_off_on:
  assumes "toNumber x = Some v"
    and "v \<in> set statusFilter"
    and "set statusFilter \<subseteq> set STATUS_VALUES"
  shows "set (onChangeStatus STATUS_VALUES toNumber
            (onChangeStatus STATUS_VALUES toNumber statusFilter
               \<lparr>target_value = x, target_checked = False\<rparr>)
            \<lparr>target_value = x, target_checked = True\<rparr>) = set statusFilter"
  using assms by (auto simp: onChangeStatus_def)

text \<open>
  C5. Take any status filter the component reaches from an initial selection of status
  values by change events, and a value \<open>v\<close> selected in it. The change event for \<open>v\<close>
  with \<open>checked = false\<close> followed by the change event for \<open>v\<close> with \<open>checked = true\<close>
  gives back the original set of selected statuses.
\<close>

theorem status_toggle_off_on:
  assumes "set initial \<subseteq> set STATUS_VALUES"
    and "statusFilter = statusEvents STATUS_VALUES toNumber initial events"
    and "toNumber x = Some v"
    and "v \<in> set statusFilter"
  shows "set (onChangeStatus STATUS_VALUES toNumber
            (onChangeStatus STATUS_VALUES toNumber statusFilter
               \<lparr>target_value = x, target_checked = False\<rparr>)
            \<lparr>target_value = x, target_checked = True\<rparr>) = set statusFilter"
proof -
  from assms(1,2) have "set statusFilter \<subseteq> set STATUS_VALUES"
    by (simp add: statusEvents_subset)
  with assms(3,4) show ?thesis by (rule toggle_off_on)
qed

theorem status_toggle_off_on_witness:
  "set [0, 1] \<subseteq> set [0, 1, 2, 3 :: int] \<and>
   statusEvents [0, 1, 2, 3] digitValue [0, 1]
            [\<lparr>target_value = ''2'', target_checked = True\<rparr>,
             \<lparr>target_value = ''0'', target_checked = False\<rparr>] = [1, 2] \<and>
   digitValue ''2'' = Some 2 \<and>
   onChangeStatus [0, 1, 2, 3] digitValue [1, 2] \<lparr>target_value = ''2'', target_checked = False\<rparr> = [1] \<and>
   set (onChangeStatus [0, 1, 2, 3] digitValue
          (onChangeStatus [0, 1, 2, 3] digitValue [1, 2]
             \<lparr>target_value = ''2'', target_checked = False\<rparr>)
          \<lparr>target_value = ''2'', target_checked = True\<rparr>) = set [1, 2]"
  using status_toggle_off_on [of "[0, 1]" "[0, 1, 2, 3]" "[1, 2]" digitValue
      "[\<lparr>target_value = ''2'', target_checked = True\<rparr>,
        \<lparr>target_value = ''0'', target_checked = False\<rparr>]" "''2''" 2]
  by (simp add: onChangeStatus_def digitValue_def)

section \<open>Properties of the sort state\<close>

text \<open>
  C6. For every sort state, a click on the column of the current sort key keeps the key
  and reverses the order (ascending becomes descending, descending becomes ascending);
  a click on any other column makes that column the key and the order ascending.
\<close>

theorem onChangeSort_click:
  "onChangeSort \<lparr>sortKey = k, sortOrder = ord\<rparr> c =
     (if c = k
      then \<lparr>sortKey = k, sortOrder = (case ord of ASC \<Rightarrow> DESC | DESC \<Rightarrow> ASC)\<rparr>
      else \<lparr>sortKey = c, sortOrder = ASC\<rparr>)"
  by (cases ord) (auto simp: onChangeSort_def)

theorem onChangeSort_click_witness:
  "onChangeSort \<lparr>sortKey = ''number'', sortOrder = DESC\<rparr> ''number'' =
     \<lparr>sortKey = ''number'', sortOrder = ASC\<rparr> \<and>
   onChangeSort \<lparr>sortKey = ''number'', sortOrder = ASC\<rparr> ''number'' =
     \<lparr>sortKey = ''number'', sortOrder = DESC\<rparr> \<and>
   onChangeSort \<lparr>sortKey = ''number'', sortOrder = DESC\<rparr> ''title'' =
     \<lparr>sortKey = ''title'', sortOrder = ASC\<rparr>"
  using onChangeSort_click [of "''number''" DESC "''number''"]
    onChangeSort_click [of "''number''" ASC "''number''"]
    onChangeSort_click [of "''number''" DESC "''title''"]
  by simp

section \<open>Properties of the pages\<close>

text \<open>The user owns the task when the user query has answered with a document whose
  id is the owner id of the task.\<close>

lemma isOwner_iff:
  "isOwner user task \<longleftrightarrow> (\<exists>u. user = Loaded u \<and> ownerId task = Some (user_id u))"
  by (cases user; cases "ownerId task") (auto simp: isOwner_def)

lemma EditTaskPage_never_throws: "\<exists>v. EditTaskPage user task = Inr v"
  by (cases task) (simp_all add: EditTaskPage_def)

text \<open>
  C7. For every user and task handed to the edit page: when the task query answers
  null the page renders the heading "Task not found", and when the task exists and the
  user is not its owner the page renders the heading "You do not have permission to
  edit this task"; in both cases the component returns, it does not throw.
\<close>

theorem EditTaskPage_expected_errors:
  "EditTaskPage user Null = Inr (Heading ''Task not found'') \<and>
   (\<not> isOwner user t \<longrightarrow>
      EditTaskPage user (Loaded t) =
        Inr (Heading ''You do not have permission to edit this task''))"
  by (simp add: EditTaskPage_def)

theorem EditTaskPage_expected_errors_witness:
  "EditTaskPage (Loaded alice) Null = Inr (Heading ''Task not found'') \<and>
   \<not> isOwner (Loaded alice) unownedTask \<and>
   EditTaskPage (Loaded alice) (Loaded unownedTask) =
     Inr (Heading ''You do not have permission to edit this task'')"
  using EditTaskPage_expected_errors [of "Loaded alice" unownedTask]
  by (simp add: isOwner_def unownedTask_def)

text \<open>
  C10. On the new-task page, when the current-user query answers null the component
  throws the error "User must be logged in to create a task"; it renders nothing.
\<close>

theorem CreateTaskPage_null_user_throws:
  "CreateTaskPage Null = Inl (Error ''User must be logged in to create a task'')"
  by (simp add: CreateTaskPage_def)

section \<open>Properties of the comment form\<close>

text \<open>
  C9, as stated, fails: after a rejected \<^verbatim>\<open>saveComment\<close> the text the user had entered
  is gone from the component state.
\<close>

theorem handleAddComment_keeps_text_counterexample:
  "fst (handleAddComment rejectingSave (Id ''task1'') \<lparr>newComment = ''hello''\<rparr>) =
     Inl (Error ''Error saving comment'') \<and>
   newComment (snd (handleAddComment rejectingSave (Id ''task1'') \<lparr>newComment = ''hello''\<rparr>))
     \<noteq> newComment \<lparr>newComment = ''hello''\<rparr>"
  by (simp add: handleAddComment_def rejectingSave_def)

text \<open>
  C9, amended. When the comment-save mutation fails, the input of the comment form has
  been reset to the empty string (the handler clears it before it calls the mutation
  and does not restore it), and the handler's promise is rejected with the error of the
  mutation.
\<close>

theorem handleAddComment_failed_save:
  assumes "saveComment taskId (newComment st) = Inl e"
  shows "handleAddComment saveComment taskId st = (Inl e, st\<lparr>newComment := ''''\<rparr>)"
  using assms by (simp add: handleAddComment_def)

theorem handleAddComment_failed_save_witness:
  "rejectingSave (Id ''task1'') (newComment \<lparr>newComment = ''hello''\<rparr>) =
     Inl (Error ''Error saving comment'') \<and>
   handleAddComment rejectingSave (Id ''task1'') \<lparr>newComment = ''hello''\<rparr> =
     (Inl (Error ''Error saving comment''), \<lparr>newComment = ''''\<rparr>)"
  using handleAddComment_failed_save
    [of rejectingSave "Id ''task1''" "\<lparr>newComment = ''hello''\<rparr>" "Error ''Error saving comment''"]
  by (simp add: rejectingSave_def)

end
